theory Spec2Isabelle
  imports Main "HOL-Library.Word"
begin

section \<open>The stub encoder API of \<open>src/sys/stubs/nvEncodeAPI.c\<close>\<close>

text \<open>
  The file defines 43 C functions with the signatures of the vendor encoder API. Every
  body is the single statement \<open>return 0;\<close>. A call is modelled as a function from the
  caller's memory to an outcome: either a fault, or the returned status together with the
  memory after the call.
\<close>

subsection \<open>Memory, faults and outcomes\<close>

text \<open>
  Memory is byte addressed; an address that is not mapped holds no object. A pointer is an
  address, the null pointer is address \<open>0\<close>.
\<close>

type_synonym addr = "64 word"
type_synonym byte = "8 word"
type_synonym mem = "addr \<rightharpoonup> byte"

text \<open>
  The only way a C function of this kind can fail to return is an access to an address
  that holds no object. No body in the source contains such an access (or any access), so
  no definition below produces this value; it is the outcome the safety theorems exclude.
\<close>

datatype fault = InvalidAccess addr

type_synonym 'a outcome = "fault + 'a \<times> mem"
type_synonym 'a cprog = "mem \<Rightarrow> 'a outcome"

text \<open>\<open>return v;\<close> hands back \<open>v\<close> and leaves the memory as it is.\<close>

definition creturn :: "'a \<Rightarrow> 'a cprog" where
  "creturn v h = Inr (v, h)"

text \<open>The returned value and the final memory of an outcome, when the call returned.\<close>

definition status_of :: "'a outcome \<Rightarrow> 'a option" where
  "status_of r = (case r of Inl e \<Rightarrow> None | Inr (s, h) \<Rightarrow> Some s)"

definition mem_of :: "'a outcome \<Rightarrow> mem option" where
  "mem_of r = (case r of Inl e \<Rightarrow> None | Inr (s, h) \<Rightarrow> Some h)"

text \<open>
  The pointee of a pointer \<open>p\<close> to an object of \<open>n\<close> bytes: the contents of the
  addresses \<open>p\<close>, ..., \<open>p + n - 1\<close>, with \<open>None\<close> where nothing is mapped.
\<close>

definition object :: "mem \<Rightarrow> addr \<Rightarrow> nat \<Rightarrow> byte option list" where
  "object h p n = map (\<lambda>i. h (p + of_nat i)) [0..<n]"

subsection \<open>Parameter types\<close>

text \<open>
  Modelled from the spec: the header \<open>nvEncodeAPI.h\<close>, which declares the status and
  parameter types, is not among the sources. The specification speaks of a numeric status
  with success zero, opaque handles, GUIDs, structs passed by pointer and buffer pointers.
  The stubs never inspect a parameter, so only the kind of each type matters:
  \<open>NVENCSTATUS\<close> and \<open>NV_ENC_TUNING_INFO\<close> are enumerations (C integers), \<open>GUID\<close> is a
  16-byte identifier passed by value, the \<open>_PTR\<close> types are pointers, and every
  parameter declared with \<open>*\<close> is a pointer.
\<close>

type_synonym uint32_t = "32 word"
type_synonym uint64_t = "64 word"
type_synonym NVENCSTATUS = "32 word"
type_synonym NV_ENC_TUNING_INFO = "32 word"
type_synonym GUID = "128 word"
type_synonym NV_ENC_INPUT_PTR = addr
type_synonym NV_ENC_OUTPUT_PTR = addr
type_synonym NV_ENC_REGISTERED_PTR = addr
type_synonym NV_ENC_CUSTREAM_PTR = addr

subsection \<open>The 43 functions, in the order of the source\<close>

definition NvEncOpenEncodeSession :: "addr \<Rightarrow> uint32_t \<Rightarrow> addr \<Rightarrow> NVENCSTATUS cprog" where
  "NvEncOpenEncodeSession device deviceType encoder = creturn 0"

definition NvEncGetEncodeGUIDCount :: "addr \<Rightarrow> addr \<Rightarrow> NVENCSTATUS cprog" where
  "NvEncGetEncodeGUIDCount encoder encodeGUIDCount = creturn 0"

definition NvEncGetEncodeGUIDs :: "addr \<Rightarrow> addr \<Rightarrow> uint32_t \<Rightarrow> addr \<Rightarrow> NVENCSTATUS cprog" where
  "NvEncGetEncodeGUIDs encoder GUIDs guidArraySize GUIDCount = creturn 0"

definition NvEncGetEncodeProfileGUIDCount :: "addr \<Rightarrow> GUID \<Rightarrow> addr \<Rightarrow> NVENCSTATUS cprog" where
  "NvEncGetEncodeProfileGUIDCount encoder encodeGUID encodeProfileGUIDCount = creturn 0"

definition NvEncGetEncodeProfileGUIDs :: "addr \<Rightarrow> GUID \<Rightarrow> addr \<Rightarrow> uint32_t \<Rightarrow> addr \<Rightarrow> NVENCSTATUS cprog" where
  "NvEncGetEncodeProfileGUIDs encoder encodeGUID profileGUIDs guidArraySize GUIDCount = creturn 0"

definition NvEncGetInputFormatCount :: "addr \<Rightarrow> GUID \<Rightarrow> addr \<Rightarrow> NVENCSTATUS cprog" where
  "NvEncGetInputFormatCount encoder encodeGUID inputFmtCount = creturn 0"

definition NvEncGetInputFormats :: "addr \<Rightarrow> GUID \<Rightarrow> addr \<Rightarrow> uint32_t \<Rightarrow> addr \<Rightarrow> NVENCSTATUS cprog" where
  "NvEncGetInputFormats encoder encodeGUID inputFmts inputFmtArraySize inputFmtCount = creturn 0"

definition NvEncGetEncodeCaps :: "addr \<Rightarrow> GUID \<Rightarrow> addr \<Rightarrow> addr \<Rightarrow> NVENCSTATUS cprog" where
  "NvEncGetEncodeCaps encoder encodeGUID capsParam capsVal = creturn 0"

definition NvEncGetEncodePresetCount :: "addr \<Rightarrow> GUID \<Rightarrow> addr \<Rightarrow> NVENCSTATUS cprog" where
  "NvEncGetEncodePresetCount encoder encodeGUID encodePresetGUIDCount = creturn 0"

definition NvEncGetEncodePresetGUIDs :: "addr \<Rightarrow> GUID \<Rightarrow> addr \<Rightarrow> uint32_t \<Rightarrow> addr \<Rightarrow> NVENCSTATUS cprog" where
  "NvEncGetEncodePresetGUIDs encoder encodeGUID presetGUIDs guidArraySize encodePresetGUIDCount = creturn 0"

definition NvEncGetEncodePresetConfig :: "addr \<Rightarrow> GUID \<Rightarrow> GUID \<Rightarrow> addr \<Rightarrow> NVENCSTATUS cprog" where
  "NvEncGetEncodePresetConfig encoder encodeGUID presetGUID presetConfig = creturn 0"

definition NvEncGetEncodePresetConfigEx :: "addr \<Rightarrow> GUID \<Rightarrow> GUID \<Rightarrow> NV_ENC_TUNING_INFO \<Rightarrow> addr \<Rightarrow> NVENCSTATUS cprog" where
  "NvEncGetEncodePresetConfigEx encoder encodeGUID presetGUID tuningInfo presetConfig = creturn 0"

definition NvEncInitializeEncoder :: "addr \<Rightarrow> addr \<Rightarrow> NVENCSTATUS cprog" where
  "NvEncInitializeEncoder encoder createEncodeParams = creturn 0"

definition NvEncCreateInputBuffer :: "addr \<Rightarrow> addr \<Rightarrow> NVENCSTATUS cprog" where
  "NvEncCreateInputBuffer encoder createInputBufferParams = creturn 0"

definition NvEncDestroyInputBuffer :: "addr \<Rightarrow> NV_ENC_INPUT_PTR \<Rightarrow> NVENCSTATUS cprog" where
  "NvEncDestroyInputBuffer encoder inputBuffer = creturn 0"

definition NvEncSetIOCudaStreams :: "addr \<Rightarrow> NV_ENC_CUSTREAM_PTR \<Rightarrow> NV_ENC_CUSTREAM_PTR \<Rightarrow> NVENCSTATUS cprog" where
  "NvEncSetIOCudaStreams encoder inputStream outputStream = creturn 0"

definition NvEncCreateBitstreamBuffer :: "addr \<Rightarrow> addr \<Rightarrow> NVENCSTATUS cprog" where
  "NvEncCreateBitstreamBuffer encoder createBitstreamBufferParams = creturn 0"

definition NvEncDestroyBitstreamBuffer :: "addr \<Rightarrow> NV_ENC_OUTPUT_PTR \<Rightarrow> NVENCSTATUS cprog" where
  "NvEncDestroyBitstreamBuffer encoder bitstreamBuffer = creturn 0"

definition NvEncEncodePicture :: "addr \<Rightarrow> addr \<Rightarrow> NVENCSTATUS cprog" where
  "NvEncEncodePicture encoder encodePicParams = creturn 0"

definition NvEncLockBitstream :: "addr \<Rightarrow> addr \<Rightarrow> NVENCSTATUS cprog" where
  "NvEncLockBitstream encoder lockBitstreamBufferParams = creturn 0"

definition NvEncUnlockBitstream :: "addr \<Rightarrow> NV_ENC_OUTPUT_PTR \<Rightarrow> NVENCSTATUS cprog" where
  "NvEncUnlockBitstream encoder bitstreamBuffer = creturn 0"

definition NvEncRestoreEncoderState :: "addr \<Rightarrow> addr \<Rightarrow> NVENCSTATUS cprog" where
  "NvEncRestoreEncoderState encoder restoreState = creturn 0"

definition NvEncLockInputBuffer :: "addr \<Rightarrow> addr \<Rightarrow> NVENCSTATUS cprog" where
  "NvEncLockInputBuffer encoder lockInputBufferParams = creturn 0"

definition NvEncUnlockInputBuffer :: "addr \<Rightarrow> NV_ENC_INPUT_PTR \<Rightarrow> NVENCSTATUS cprog" where
  "NvEncUnlockInputBuffer encoder inputBuffer = creturn 0"

definition NvEncGetEncodeStats :: "addr \<Rightarrow> addr \<Rightarrow> NVENCSTATUS cprog" where
  "NvEncGetEncodeStats encoder encodeStats = creturn 0"

definition NvEncGetSequenceParams :: "addr \<Rightarrow> addr \<Rightarrow> NVENCSTATUS cprog" where
  "NvEncGetSequenceParams encoder sequenceParamPayload = creturn 0"

definition NvEncGetSequenceParamEx :: "addr \<Rightarrow> addr \<Rightarrow> addr \<Rightarrow> NVENCSTATUS cprog" where
  "NvEncGetSequenceParamEx encoder encInitParams sequenceParamPayload = creturn 0"

definition NvEncRegisterAsyncEvent :: "addr \<Rightarrow> addr \<Rightarrow> NVENCSTATUS cprog" where
  "NvEncRegisterAsyncEvent encoder eventParams = creturn 0"

definition NvEncUnregisterAsyncEvent :: "addr \<Rightarrow> addr \<Rightarrow> NVENCSTATUS cprog" where
  "NvEncUnregisterAsyncEvent encoder eventParams = creturn 0"

definition NvEncMapInputResource :: "addr \<Rightarrow> addr \<Rightarrow> NVENCSTATUS cprog" where
  "NvEncMapInputResource encoder mapInputResParams = creturn 0"

definition NvEncUnmapInputResource :: "addr \<Rightarrow> NV_ENC_INPUT_PTR \<Rightarrow> NVENCSTATUS cprog" where
  "NvEncUnmapInputResource encoder mappedInputBuffer = creturn 0"

definition NvEncDestroyEncoder :: "addr \<Rightarrow> NVENCSTATUS cprog" where
  "NvEncDestroyEncoder encoder = creturn 0"

definition NvEncInvalidateRefFrames :: "addr \<Rightarrow> uint64_t \<Rightarrow> NVENCSTATUS cprog" where
  "NvEncInvalidateRefFrames encoder invalidRefFrameTimeStamp = creturn 0"

definition NvEncOpenEncodeSessionEx :: "addr \<Rightarrow> addr \<Rightarrow> NVENCSTATUS cprog" where
  "NvEncOpenEncodeSessionEx openSessionExParams encoder = creturn 0"

definition NvEncRegisterResource :: "addr \<Rightarrow> addr \<Rightarrow> NVENCSTATUS cprog" where
  "NvEncRegisterResource encoder registerResParams = creturn 0"

definition NvEncUnregisterResource :: "addr \<Rightarrow> NV_ENC_REGISTERED_PTR \<Rightarrow> NVENCSTATUS cprog" where
  "NvEncUnregisterResource encoder registeredResource = creturn 0"

definition NvEncReconfigureEncoder :: "addr \<Rightarrow> addr \<Rightarrow> NVENCSTATUS cprog" where
  "NvEncReconfigureEncoder encoder reInitEncodeParams = creturn 0"

definition NvEncCreateMVBuffer :: "addr \<Rightarrow> addr \<Rightarrow> NVENCSTATUS cprog" where
  "NvEncCreateMVBuffer encoder createMVBufferParams = creturn 0"

definition NvEncDestroyMVBuffer :: "addr \<Rightarrow> NV_ENC_OUTPUT_PTR \<Rightarrow> NVENCSTATUS cprog" where
  "NvEncDestroyMVBuffer encoder mvBuffer = creturn 0"

definition NvEncRunMotionEstimationOnly :: "addr \<Rightarrow> addr \<Rightarrow> NVENCSTATUS cprog" where
  "NvEncRunMotionEstimationOnly encoder meOnlyParams = creturn 0"

definition NvEncodeAPIGetMaxSupportedVersion :: "addr \<Rightarrow> NVENCSTATUS cprog" where
  "NvEncodeAPIGetMaxSupportedVersion version = creturn 0"

definition NvEncLookaheadPicture :: "addr \<Rightarrow> addr \<Rightarrow> NVENCSTATUS cprog" where
  "NvEncLookaheadPicture encoder lookaheadParamas = creturn 0"

definition NvEncodeAPICreateInstance :: "addr \<Rightarrow> NVENCSTATUS cprog" where
  "NvEncodeAPICreateInstance functionList = creturn 0"

subsection \<open>The stub surface as a table\<close>

text \<open>The functions the file defines, by name, in source order.\<close>

datatype stub_fn =
    NvEncOpenEncodeSession_fn
  | NvEncGetEncodeGUIDCount_fn
  | NvEncGetEncodeGUIDs_fn
  | NvEncGetEncodeProfileGUIDCount_fn
  | NvEncGetEncodeProfileGUIDs_fn
  | NvEncGetInputFormatCount_fn
  | NvEncGetInputFormats_fn
  | NvEncGetEncodeCaps_fn
  | NvEncGetEncodePresetCount_fn
  | NvEncGetEncodePresetGUIDs_fn
  | NvEncGetEncodePresetConfig_fn
  | NvEncGetEncodePresetConfigEx_fn
  | NvEncInitializeEncoder_fn
  | NvEncCreateInputBuffer_fn
  | NvEncDestroyInputBuffer_fn
  | NvEncSetIOCudaStreams_fn
  | NvEncCreateBitstreamBuffer_fn
  | NvEncDestroyBitstreamBuffer_fn
  | NvEncEncodePicture_fn
  | NvEncLockBitstream_fn
  | NvEncUnlockBitstream_fn
  | NvEncRestoreEncoderState_fn
  | NvEncLockInputBuffer_fn
  | NvEncUnlockInputBuffer_fn
  | NvEncGetEncodeStats_fn
  | NvEncGetSequenceParams_fn
  | NvEncGetSequenceParamEx_fn
  | NvEncRegisterAsyncEvent_fn
  | NvEncUnregisterAsyncEvent_fn
  | NvEncMapInputResource_fn
  | NvEncUnmapInputResource_fn
  | NvEncDestroyEncoder_fn
  | NvEncInvalidateRefFrames_fn
  | NvEncOpenEncodeSessionEx_fn
  | NvEncRegisterResource_fn
  | NvEncUnregisterResource_fn
  | NvEncReconfigureEncoder_fn
  | NvEncCreateMVBuffer_fn
  | NvEncDestroyMVBuffer_fn
  | NvEncRunMotionEstimationOnly_fn
  | NvEncodeAPIGetMaxSupportedVersion_fn
  | NvEncLookaheadPicture_fn
  | NvEncodeAPICreateInstance_fn

definition stub_surface :: "stub_fn list" where
  "stub_surface =
    [NvEncOpenEncodeSession_fn,
     NvEncGetEncodeGUIDCount_fn,
     NvEncGetEncodeGUIDs_fn,
     NvEncGetEncodeProfileGUIDCount_fn,
     NvEncGetEncodeProfileGUIDs_fn,
     NvEncGetInputFormatCount_fn,
     NvEncGetInputFormats_fn,
     NvEncGetEncodeCaps_fn,
     NvEncGetEncodePresetCount_fn,
     NvEncGetEncodePresetGUIDs_fn,
     NvEncGetEncodePresetConfig_fn,
     NvEncGetEncodePresetConfigEx_fn,
     NvEncInitializeEncoder_fn,
     NvEncCreateInputBuffer_fn,
     NvEncDestroyInputBuffer_fn,
     NvEncSetIOCudaStreams_fn,
     NvEncCreateBitstreamBuffer_fn,
     NvEncDestroyBitstreamBuffer_fn,
     NvEncEncodePicture_fn,
     NvEncLockBitstream_fn,
     NvEncUnlockBitstream_fn,
     NvEncRestoreEncoderState_fn,
     NvEncLockInputBuffer_fn,
     NvEncUnlockInputBuffer_fn,
     NvEncGetEncodeStats_fn,
     NvEncGetSequenceParams_fn,
     NvEncGetSequenceParamEx_fn,
     NvEncRegisterAsyncEvent_fn,
     NvEncUnregisterAsyncEvent_fn,
     NvEncMapInputResource_fn,
     NvEncUnmapInputResource_fn,
     NvEncDestroyEncoder_fn,
     NvEncInvalidateRefFrames_fn,
     NvEncOpenEncodeSessionEx_fn,
     NvEncRegisterResource_fn,
     NvEncUnregisterResource_fn,
     NvEncReconfigureEncoder_fn,
     NvEncCreateMVBuffer_fn,
     NvEncDestroyMVBuffer_fn,
     NvEncRunMotionEstimationOnly_fn,
     NvEncodeAPIGetMaxSupportedVersion_fn,
     NvEncLookaheadPicture_fn,
     NvEncodeAPICreateInstance_fn]"

text \<open>A call: a function of the surface applied to arguments of its parameter types.\<close>

datatype stub_call =
    NvEncOpenEncodeSession_call addr uint32_t addr
  | NvEncGetEncodeGUIDCount_call addr addr
  | NvEncGetEncodeGUIDs_call addr addr uint32_t addr
  | NvEncGetEncodeProfileGUIDCount_call addr GUID addr
  | NvEncGetEncodeProfileGUIDs_call addr GUID addr uint32_t addr
  | NvEncGetInputFormatCount_call addr GUID addr
  | NvEncGetInputFormats_call addr GUID addr uint32_t addr
  | NvEncGetEncodeCaps_call addr GUID addr addr
  | NvEncGetEncodePresetCount_call addr GUID addr
  | NvEncGetEncodePresetGUIDs_call addr GUID addr uint32_t addr
  | NvEncGetEncodePresetConfig_call addr GUID GUID addr
  | NvEncGetEncodePresetConfigEx_call addr GUID GUID NV_ENC_TUNING_INFO addr
  | NvEncInitializeEncoder_call addr addr
  | NvEncCreateInputBuffer_call addr addr
  | NvEncDestroyInputBuffer_call addr NV_ENC_INPUT_PTR
  | NvEncSetIOCudaStreams_call addr NV_ENC_CUSTREAM_PTR NV_ENC_CUSTREAM_PTR
  | NvEncCreateBitstreamBuffer_call addr addr
  | NvEncDestroyBitstreamBuffer_call addr NV_ENC_OUTPUT_PTR
  | NvEncEncodePicture_call addr addr
  | NvEncLockBitstream_call addr addr
  | NvEncUnlockBitstream_call addr NV_ENC_OUTPUT_PTR
  | NvEncRestoreEncoderState_call addr addr
  | NvEncLockInputBuffer_call addr addr
  | NvEncUnlockInputBuffer_call addr NV_ENC_INPUT_PTR
  | NvEncGetEncodeStats_call addr addr
  | NvEncGetSequenceParams_call addr addr
  | NvEncGetSequenceParamEx_call addr addr addr
  | NvEncRegisterAsyncEvent_call addr addr
  | NvEncUnregisterAsyncEvent_call addr addr
  | NvEncMapInputResource_call addr addr
  | NvEncUnmapInputResource_call addr NV_ENC_INPUT_PTR
  | NvEncDestroyEncoder_call addr
  | NvEncInvalidateRefFrames_call addr uint64_t
  | NvEncOpenEncodeSessionEx_call addr addr
  | NvEncRegisterResource_call addr addr
  | NvEncUnregisterResource_call addr NV_ENC_REGISTERED_PTR
  | NvEncReconfigureEncoder_call addr addr
  | NvEncCreateMVBuffer_call addr addr
  | NvEncDestroyMVBuffer_call addr NV_ENC_OUTPUT_PTR
  | NvEncRunMotionEstimationOnly_call addr addr
  | NvEncodeAPIGetMaxSupportedVersion_call addr
  | NvEncLookaheadPicture_call addr addr
  | NvEncodeAPICreateInstance_call addr

primrec fn_of :: "stub_call \<Rightarrow> stub_fn" where
  "fn_of (NvEncOpenEncodeSession_call device deviceType encoder) = NvEncOpenEncodeSession_fn"
| "fn_of (NvEncGetEncodeGUIDCount_call encoder encodeGUIDCount) = NvEncGetEncodeGUIDCount_fn"
| "fn_of (NvEncGetEncodeGUIDs_call encoder GUIDs guidArraySize GUIDCount) = NvEncGetEncodeGUIDs_fn"
| "fn_of (NvEncGetEncodeProfileGUIDCount_call encoder encodeGUID encodeProfileGUIDCount) = NvEncGetEncodeProfileGUIDCount_fn"
| "fn_of (NvEncGetEncodeProfileGUIDs_call encoder encodeGUID profileGUIDs guidArraySize GUIDCount) = NvEncGetEncodeProfileGUIDs_fn"
| "fn_of (NvEncGetInputFormatCount_call encoder encodeGUID inputFmtCount) = NvEncGetInputFormatCount_fn"
| "fn_of (NvEncGetInputFormats_call encoder encodeGUID inputFmts inputFmtArraySize inputFmtCount) = NvEncGetInputFormats_fn"
| "fn_of (NvEncGetEncodeCaps_call encoder encodeGUID capsParam capsVal) = NvEncGetEncodeCaps_fn"
| "fn_of (NvEncGetEncodePresetCount_call encoder encodeGUID encodePresetGUIDCount) = NvEncGetEncodePresetCount_fn"
| "fn_of (NvEncGetEncodePresetGUIDs_call encoder encodeGUID presetGUIDs guidArraySize encodePresetGUIDCount) = NvEncGetEncodePresetGUIDs_fn"
| "fn_of (NvEncGetEncodePresetConfig_call encoder encodeGUID presetGUID presetConfig) = NvEncGetEncodePresetConfig_fn"
| "fn_of (NvEncGetEncodePresetConfigEx_call encoder encodeGUID presetGUID tuningInfo presetConfig) = NvEncGetEncodePresetConfigEx_fn"
| "fn_of (NvEncInitializeEncoder_call encoder createEncodeParams) = NvEncInitializeEncoder_fn"
| "fn_of (NvEncCreateInputBuffer_call encoder createInputBufferParams) = NvEncCreateInputBuffer_fn"
| "fn_of (NvEncDestroyInputBuffer_call encoder inputBuffer) = NvEncDestroyInputBuffer_fn"
| "fn_of (NvEncSetIOCudaStreams_call encoder inputStream outputStream) = NvEncSetIOCudaStreams_fn"
| "fn_of (NvEncCreateBitstreamBuffer_call encoder createBitstreamBufferParams) = NvEncCreateBitstreamBuffer_fn"
| "fn_of (NvEncDestroyBitstreamBuffer_call encoder bitstreamBuffer) = NvEncDestroyBitstreamBuffer_fn"
| "fn_of (NvEncEncodePicture_call encoder encodePicParams) = NvEncEncodePicture_fn"
| "fn_of (NvEncLockBitstream_call encoder lockBitstreamBufferParams) = NvEncLockBitstream_fn"
| "fn_of (NvEncUnlockBitstream_call encoder bitstreamBuffer) = NvEncUnlockBitstream_fn"
| "fn_of (NvEncRestoreEncoderState_call encoder restoreState) = NvEncRestoreEncoderState_fn"
| "fn_of (NvEncLockInputBuffer_call encoder lockInputBufferParams) = NvEncLockInputBuffer_fn"
| "fn_of (NvEncUnlockInputBuffer_call encoder inputBuffer) = NvEncUnlockInputBuffer_fn"
| "fn_of (NvEncGetEncodeStats_call encoder encodeStats) = NvEncGetEncodeStats_fn"
| "fn_of (NvEncGetSequenceParams_call encoder sequenceParamPayload) = NvEncGetSequenceParams_fn"
| "fn_of (NvEncGetSequenceParamEx_call encoder encInitParams sequenceParamPayload) = NvEncGetSequenceParamEx_fn"
| "fn_of (NvEncRegisterAsyncEvent_call encoder eventParams) = NvEncRegisterAsyncEvent_fn"
| "fn_of (NvEncUnregisterAsyncEvent_call encoder eventParams) = NvEncUnregisterAsyncEvent_fn"
| "fn_of (NvEncMapInputResource_call encoder mapInputResParams) = NvEncMapInputResource_fn"
| "fn_of (NvEncUnmapInputResource_call encoder mappedInputBuffer) = NvEncUnmapInputResource_fn"
| "fn_of (NvEncDestroyEncoder_call encoder) = NvEncDestroyEncoder_fn"
| "fn_of (NvEncInvalidateRefFrames_call encoder invalidRefFrameTimeStamp) = NvEncInvalidateRefFrames_fn"
| "fn_of (NvEncOpenEncodeSessionEx_call openSessionExParams encoder) = NvEncOpenEncodeSessionEx_fn"
| "fn_of (NvEncRegisterResource_call encoder registerResParams) = NvEncRegisterResource_fn"
| "fn_of (NvEncUnregisterResource_call encoder registeredResource) = NvEncUnregisterResource_fn"
| "fn_of (NvEncReconfigureEncoder_call encoder reInitEncodeParams) = NvEncReconfigureEncoder_fn"
| "fn_of (NvEncCreateMVBuffer_call encoder createMVBufferParams) = NvEncCreateMVBuffer_fn"
| "fn_of (NvEncDestroyMVBuffer_call encoder mvBuffer) = NvEncDestroyMVBuffer_fn"
| "fn_of (NvEncRunMotionEstimationOnly_call encoder meOnlyParams) = NvEncRunMotionEstimationOnly_fn"
| "fn_of (NvEncodeAPIGetMaxSupportedVersion_call version) = NvEncodeAPIGetMaxSupportedVersion_fn"
| "fn_of (NvEncLookaheadPicture_call encoder lookaheadParamas) = NvEncLookaheadPicture_fn"
| "fn_of (NvEncodeAPICreateInstance_call functionList) = NvEncodeAPICreateInstance_fn"

text \<open>Executing a call runs the body of the function called.\<close>

primrec exec :: "stub_call \<Rightarrow> NVENCSTATUS cprog" where
  "exec (NvEncOpenEncodeSession_call device deviceType encoder) =
     NvEncOpenEncodeSession device deviceType encoder"
| "exec (NvEncGetEncodeGUIDCount_call encoder encodeGUIDCount) =
     NvEncGetEncodeGUIDCount encoder encodeGUIDCount"
| "exec (NvEncGetEncodeGUIDs_call encoder GUIDs guidArraySize GUIDCount) =
     NvEncGetEncodeGUIDs encoder GUIDs guidArraySize GUIDCount"
| "exec (NvEncGetEncodeProfileGUIDCount_call encoder encodeGUID encodeProfileGUIDCount) =
     NvEncGetEncodeProfileGUIDCount encoder encodeGUID encodeProfileGUIDCount"
| "exec (NvEncGetEncodeProfileGUIDs_call encoder encodeGUID profileGUIDs guidArraySize GUIDCount) =
     NvEncGetEncodeProfileGUIDs encoder encodeGUID profileGUIDs guidArraySize GUIDCount"
| "exec (NvEncGetInputFormatCount_call encoder encodeGUID inputFmtCount) =
     NvEncGetInputFormatCount encoder encodeGUID inputFmtCount"
| "exec (NvEncGetInputFormats_call encoder encodeGUID inputFmts inputFmtArraySize inputFmtCount) =
     NvEncGetInputFormats encoder encodeGUID inputFmts inputFmtArraySize inputFmtCount"
| "exec (NvEncGetEncodeCaps_call encoder encodeGUID capsParam capsVal) =
     NvEncGetEncodeCaps encoder encodeGUID capsParam capsVal"
| "exec (NvEncGetEncodePresetCount_call encoder encodeGUID encodePresetGUIDCount) =
     NvEncGetEncodePresetCount encoder encodeGUID encodePresetGUIDCount"
| "exec (NvEncGetEncodePresetGUIDs_call encoder encodeGUID presetGUIDs guidArraySize encodePresetGUIDCount) =
     NvEncGetEncodePresetGUIDs encoder encodeGUID presetGUIDs guidArraySize encodePresetGUIDCount"
| "exec (NvEncGetEncodePresetConfig_call encoder encodeGUID presetGUID presetConfig) =
     NvEncGetEncodePresetConfig encoder encodeGUID presetGUID presetConfig"
| "exec (NvEncGetEncodePresetConfigEx_call encoder encodeGUID presetGUID tuningInfo presetConfig) =
     NvEncGetEncodePresetConfigEx encoder encodeGUID presetGUID tuningInfo presetConfig"
| "exec (NvEncInitializeEncoder_call encoder createEncodeParams) =
     NvEncInitializeEncoder encoder createEncodeParams"
| "exec (NvEncCreateInputBuffer_call encoder createInputBufferParams) =
     NvEncCreateInputBuffer encoder createInputBufferParams"
| "exec (NvEncDestroyInputBuffer_call encoder inputBuffer) =
     NvEncDestroyInputBuffer encoder inputBuffer"
| "exec (NvEncSetIOCudaStreams_call encoder inputStream outputStream) =
     NvEncSetIOCudaStreams encoder inputStream outputStream"
| "exec (NvEncCreateBitstreamBuffer_call encoder createBitstreamBufferParams) =
     NvEncCreateBitstreamBuffer encoder createBitstreamBufferParams"
| "exec (NvEncDestroyBitstreamBuffer_call encoder bitstreamBuffer) =
     NvEncDestroyBitstreamBuffer encoder bitstreamBuffer"
| "exec (NvEncEncodePicture_call encoder encodePicParams) =
     NvEncEncodePicture encoder encodePicParams"
| "exec (NvEncLockBitstream_call encoder lockBitstreamBufferParams) =
     NvEncLockBitstream encoder lockBitstreamBufferParams"
| "exec (NvEncUnlockBitstream_call encoder bitstreamBuffer) =
     NvEncUnlockBitstream encoder bitstreamBuffer"
| "exec (NvEncRestoreEncoderState_call encoder restoreState) =
     NvEncRestoreEncoderState encoder restoreState"
| "exec (NvEncLockInputBuffer_call encoder lockInputBufferParams) =
     NvEncLockInputBuffer encoder lockInputBufferParams"
| "exec (NvEncUnlockInputBuffer_call encoder inputBuffer) =
     NvEncUnlockInputBuffer encoder inputBuffer"
| "exec (NvEncGetEncodeStats_call encoder encodeStats) =
     NvEncGetEncodeStats encoder encodeStats"
| "exec (NvEncGetSequenceParams_call encoder sequenceParamPayload) =
     NvEncGetSequenceParams encoder sequenceParamPayload"
| "exec (NvEncGetSequenceParamEx_call encoder encInitParams sequenceParamPayload) =
     NvEncGetSequenceParamEx encoder encInitParams sequenceParamPayload"
| "exec (NvEncRegisterAsyncEvent_call encoder eventParams) =
     NvEncRegisterAsyncEvent encoder eventParams"
| "exec (NvEncUnregisterAsyncEvent_call encoder eventParams) =
     NvEncUnregisterAsyncEvent encoder eventParams"
| "exec (NvEncMapInputResource_call encoder mapInputResParams) =
     NvEncMapInputResource encoder mapInputResParams"
| "exec (NvEncUnmapInputResource_call encoder mappedInputBuffer) =
     NvEncUnmapInputResource encoder mappedInputBuffer"
| "exec (NvEncDestroyEncoder_call encoder) =
     NvEncDestroyEncoder encoder"
| "exec (NvEncInvalidateRefFrames_call encoder invalidRefFrameTimeStamp) =
     NvEncInvalidateRefFrames encoder invalidRefFrameTimeStamp"
| "exec (NvEncOpenEncodeSessionEx_call openSessionExParams encoder) =
     NvEncOpenEncodeSessionEx openSessionExParams encoder"
| "exec (NvEncRegisterResource_call encoder registerResParams) =
     NvEncRegisterResource encoder registerResParams"
| "exec (NvEncUnregisterResource_call encoder registeredResource) =
     NvEncUnregisterResource encoder registeredResource"
| "exec (NvEncReconfigureEncoder_call encoder reInitEncodeParams) =
     NvEncReconfigureEncoder encoder reInitEncodeParams"
| "exec (NvEncCreateMVBuffer_call encoder createMVBufferParams) =
     NvEncCreateMVBuffer encoder createMVBufferParams"
| "exec (NvEncDestroyMVBuffer_call encoder mvBuffer) =
     NvEncDestroyMVBuffer encoder mvBuffer"
| "exec (NvEncRunMotionEstimationOnly_call encoder meOnlyParams) =
     NvEncRunMotionEstimationOnly encoder meOnlyParams"
| "exec (NvEncodeAPIGetMaxSupportedVersion_call version) =
     NvEncodeAPIGetMaxSupportedVersion version"
| "exec (NvEncLookaheadPicture_call encoder lookaheadParamas) =
     NvEncLookaheadPicture encoder lookaheadParamas"
| "exec (NvEncodeAPICreateInstance_call functionList) =
     NvEncodeAPICreateInstance functionList"

text \<open>The call of a function with every argument zero: null handles, null pointers, zero counts.\<close>

primrec null_call :: "stub_fn \<Rightarrow> stub_call" where
  "null_call NvEncOpenEncodeSession_fn = NvEncOpenEncodeSession_call 0 0 0"
| "null_call NvEncGetEncodeGUIDCount_fn = NvEncGetEncodeGUIDCount_call 0 0"
| "null_call NvEncGetEncodeGUIDs_fn = NvEncGetEncodeGUIDs_call 0 0 0 0"
| "null_call NvEncGetEncodeProfileGUIDCount_fn = NvEncGetEncodeProfileGUIDCount_call 0 0 0"
| "null_call NvEncGetEncodeProfileGUIDs_fn = NvEncGetEncodeProfileGUIDs_call 0 0 0 0 0"
| "null_call NvEncGetInputFormatCount_fn = NvEncGetInputFormatCount_call 0 0 0"
| "null_call NvEncGetInputFormats_fn = NvEncGetInputFormats_call 0 0 0 0 0"
| "null_call NvEncGetEncodeCaps_fn = NvEncGetEncodeCaps_call 0 0 0 0"
| "null_call NvEncGetEncodePresetCount_fn = NvEncGetEncodePresetCount_call 0 0 0"
| "null_call NvEncGetEncodePresetGUIDs_fn = NvEncGetEncodePresetGUIDs_call 0 0 0 0 0"
| "null_call NvEncGetEncodePresetConfig_fn = NvEncGetEncodePresetConfig_call 0 0 0 0"
| "null_call NvEncGetEncodePresetConfigEx_fn = NvEncGetEncodePresetConfigEx_call 0 0 0 0 0"
| "null_call NvEncInitializeEncoder_fn = NvEncInitializeEncoder_call 0 0"
| "null_call NvEncCreateInputBuffer_fn = NvEncCreateInputBuffer_call 0 0"
| "null_call NvEncDestroyInputBuffer_fn = NvEncDestroyInputBuffer_call 0 0"
| "null_call NvEncSetIOCudaStreams_fn = NvEncSetIOCudaStreams_call 0 0 0"
| "null_call NvEncCreateBitstreamBuffer_fn = NvEncCreateBitstreamBuffer_call 0 0"
| "null_call NvEncDestroyBitstreamBuffer_fn = NvEncDestroyBitstreamBuffer_call 0 0"
| "null_call NvEncEncodePicture_fn = NvEncEncodePicture_call 0 0"
| "null_call NvEncLockBitstream_fn = NvEncLockBitstream_call 0 0"
| "null_call NvEncUnlockBitstream_fn = NvEncUnlockBitstream_call 0 0"
| "null_call NvEncRestoreEncoderState_fn = NvEncRestoreEncoderState_call 0 0"
| "null_call NvEncLockInputBuffer_fn = NvEncLockInputBuffer_call 0 0"
| "null_call NvEncUnlockInputBuffer_fn = NvEncUnlockInputBuffer_call 0 0"
| "null_call NvEncGetEncodeStats_fn = NvEncGetEncodeStats_call 0 0"
| "null_call NvEncGetSequenceParams_fn = NvEncGetSequenceParams_call 0 0"
| "null_call NvEncGetSequenceParamEx_fn = NvEncGetSequenceParamEx_call 0 0 0"
| "null_call NvEncRegisterAsyncEvent_fn = NvEncRegisterAsyncEvent_call 0 0"
| "null_call NvEncUnregisterAsyncEvent_fn = NvEncUnregisterAsyncEvent_call 0 0"
| "null_call NvEncMapInputResource_fn = NvEncMapInputResource_call 0 0"
| "null_call NvEncUnmapInputResource_fn = NvEncUnmapInputResource_call 0 0"
| "null_call NvEncDestroyEncoder_fn = NvEncDestroyEncoder_call 0"
| "null_call NvEncInvalidateRefFrames_fn = NvEncInvalidateRefFrames_call 0 0"
| "null_call NvEncOpenEncodeSessionEx_fn = NvEncOpenEncodeSessionEx_call 0 0"
| "null_call NvEncRegisterResource_fn = NvEncRegisterResource_call 0 0"
| "null_call NvEncUnregisterResource_fn = NvEncUnregisterResource_call 0 0"
| "null_call NvEncReconfigureEncoder_fn = NvEncReconfigureEncoder_call 0 0"
| "null_call NvEncCreateMVBuffer_fn = NvEncCreateMVBuffer_call 0 0"
| "null_call NvEncDestroyMVBuffer_fn = NvEncDestroyMVBuffer_call 0 0"
| "null_call NvEncRunMotionEstimationOnly_fn = NvEncRunMotionEstimationOnly_call 0 0"
| "null_call NvEncodeAPIGetMaxSupportedVersion_fn = NvEncodeAPIGetMaxSupportedVersion_call 0"
| "null_call NvEncLookaheadPicture_fn = NvEncLookaheadPicture_call 0 0"
| "null_call NvEncodeAPICreateInstance_fn = NvEncodeAPICreateInstance_call 0"

text \<open>
  A client program that makes the calls \<open>cs\<close> one after the other, each on the memory
  the previous call left. The result is the outcome of every call made, in order; a fault
  ends the program.
\<close>

fun run :: "stub_call list \<Rightarrow> mem \<Rightarrow> NVENCSTATUS outcome list" where
  "run [] h = []"
| "run (c # cs) h =
     (case exec c h of
        Inl e \<Rightarrow> [Inl e]
      | Inr (s, h') \<Rightarrow> Inr (s, h') # run cs h')"

subsection \<open>The API list of the specification\<close>

text \<open>
  The specification enumerates the interface in words. \<open>api_entry\<close> and
  \<open>spec_api_list\<close> follow that enumeration, one constructor per function it names, in
  its order: session open/open-ex, encode-GUID and profile-GUID enumeration, input-format
  enumeration, capability queries, preset enumeration and config retrieval (plus an
  extended/tuning variant), encoder initialization and reconfiguration,
  input/bitstream/motion-vector buffer creation and destruction, resource
  registration/unregistration and input-resource map/unmap, picture encoding, bitstream
  lock/unlock, input-buffer lock/unlock, sequence-parameter retrieval (plus an extended
  variant), async-event registration/unregistration, encoder-state save/restore,
  statistics retrieval, reference-frame invalidation, motion-estimation-only run,
  lookahead picture submission, max-supported-version query, encoder destruction, and a
  function-list factory entry point.
\<close>

datatype api_entry =
    SessionOpen | SessionOpenEx
  | EncodeGuidEnumeration | ProfileGuidEnumeration | InputFormatEnumeration
  | CapabilityQuery
  | PresetEnumeration | PresetConfigRetrieval | PresetConfigRetrievalEx
  | EncoderInitialization | EncoderReconfiguration
  | InputBufferCreation | InputBufferDestruction
  | BitstreamBufferCreation | BitstreamBufferDestruction
  | MVBufferCreation | MVBufferDestruction
  | ResourceRegistration | ResourceUnregistration
  | InputResourceMap | InputResourceUnmap
  | PictureEncoding
  | BitstreamLock | BitstreamUnlock
  | InputBufferLock | InputBufferUnlock
  | SequenceParamRetrieval | SequenceParamRetrievalEx
  | AsyncEventRegistration | AsyncEventUnregistration
  | EncoderStateSave | EncoderStateRestore
  | StatisticsRetrieval
  | RefFrameInvalidation
  | MotionEstimationOnlyRun
  | LookaheadPictureSubmission
  | MaxSupportedVersionQuery
  | EncoderDestruction
  | FunctionListFactory

definition spec_api_list :: "api_entry list" where
  "spec_api_list =
    [SessionOpen, SessionOpenEx,
     EncodeGuidEnumeration, ProfileGuidEnumeration, InputFormatEnumeration,
     CapabilityQuery,
     PresetEnumeration, PresetConfigRetrieval, PresetConfigRetrievalEx,
     EncoderInitialization, EncoderReconfiguration,
     InputBufferCreation, InputBufferDestruction,
     BitstreamBufferCreation, BitstreamBufferDestruction,
     MVBufferCreation, MVBufferDestruction,
     ResourceRegistration, ResourceUnregistration,
     InputResourceMap, InputResourceUnmap,
     PictureEncoding,
     BitstreamLock, BitstreamUnlock,
     InputBufferLock, InputBufferUnlock,
     SequenceParamRetrieval, SequenceParamRetrievalEx,
     AsyncEventRegistration, AsyncEventUnregistration,
     EncoderStateSave, EncoderStateRestore,
     StatisticsRetrieval,
     RefFrameInvalidation,
     MotionEstimationOnlyRun,
     LookaheadPictureSubmission,
     MaxSupportedVersionQuery,
     EncoderDestruction,
     FunctionListFactory]"

text \<open>
  What each function of the source is, in the terms of that enumeration. The count query
  and the list query of an enumeration realise the same entry. \<open>NvEncSetIOCudaStreams\<close>
  realises none of them.
\<close>

primrec entry_of :: "stub_fn \<Rightarrow> api_entry option" where
  "entry_of NvEncOpenEncodeSession_fn = Some SessionOpen"
| "entry_of NvEncGetEncodeGUIDCount_fn = Some EncodeGuidEnumeration"
| "entry_of NvEncGetEncodeGUIDs_fn = Some EncodeGuidEnumeration"
| "entry_of NvEncGetEncodeProfileGUIDCount_fn = Some ProfileGuidEnumeration"
| "entry_of NvEncGetEncodeProfileGUIDs_fn = Some ProfileGuidEnumeration"
| "entry_of NvEncGetInputFormatCount_fn = Some InputFormatEnumeration"
| "entry_of NvEncGetInputFormats_fn = Some InputFormatEnumeration"
| "entry_of NvEncGetEncodeCaps_fn = Some CapabilityQuery"
| "entry_of NvEncGetEncodePresetCount_fn = Some PresetEnumeration"
| "entry_of NvEncGetEncodePresetGUIDs_fn = Some PresetEnumeration"
| "entry_of NvEncGetEncodePresetConfig_fn = Some PresetConfigRetrieval"
| "entry_of NvEncGetEncodePresetConfigEx_fn = Some PresetConfigRetrievalEx"
| "entry_of NvEncInitializeEncoder_fn = Some EncoderInitialization"
| "entry_of NvEncCreateInputBuffer_fn = Some InputBufferCreation"
| "entry_of NvEncDestroyInputBuffer_fn = Some InputBufferDestruction"
| "entry_of NvEncSetIOCudaStreams_fn = None"
| "entry_of NvEncCreateBitstreamBuffer_fn = Some BitstreamBufferCreation"
| "entry_of NvEncDestroyBitstreamBuffer_fn = Some BitstreamBufferDestruction"
| "entry_of NvEncEncodePicture_fn = Some PictureEncoding"
| "entry_of NvEncLockBitstream_fn = Some BitstreamLock"
| "entry_of NvEncUnlockBitstream_fn = Some BitstreamUnlock"
| "entry_of NvEncRestoreEncoderState_fn = Some EncoderStateRestore"
| "entry_of NvEncLockInputBuffer_fn = Some InputBufferLock"
| "entry_of NvEncUnlockInputBuffer_fn = Some InputBufferUnlock"
| "entry_of NvEncGetEncodeStats_fn = Some StatisticsRetrieval"
| "entry_of NvEncGetSequenceParams_fn = Some SequenceParamRetrieval"
| "entry_of NvEncGetSequenceParamEx_fn = Some SequenceParamRetrievalEx"
| "entry_of NvEncRegisterAsyncEvent_fn = Some AsyncEventRegistration"
| "entry_of NvEncUnregisterAsyncEvent_fn = Some AsyncEventUnregistration"
| "entry_of NvEncMapInputResource_fn = Some InputResourceMap"
| "entry_of NvEncUnmapInputResource_fn = Some InputResourceUnmap"
| "entry_of NvEncDestroyEncoder_fn = Some EncoderDestruction"
| "entry_of NvEncInvalidateRefFrames_fn = Some RefFrameInvalidation"
| "entry_of NvEncOpenEncodeSessionEx_fn = Some SessionOpenEx"
| "entry_of NvEncRegisterResource_fn = Some ResourceRegistration"
| "entry_of NvEncUnregisterResource_fn = Some ResourceUnregistration"
| "entry_of NvEncReconfigureEncoder_fn = Some EncoderReconfiguration"
| "entry_of NvEncCreateMVBuffer_fn = Some MVBufferCreation"
| "entry_of NvEncDestroyMVBuffer_fn = Some MVBufferDestruction"
| "entry_of NvEncRunMotionEstimationOnly_fn = Some MotionEstimationOnlyRun"
| "entry_of NvEncodeAPIGetMaxSupportedVersion_fn = Some MaxSupportedVersionQuery"
| "entry_of NvEncLookaheadPicture_fn = Some LookaheadPictureSubmission"
| "entry_of NvEncodeAPICreateInstance_fn = Some FunctionListFactory"

text \<open>An entry is provided when some function of the source realises it.\<close>

definition provided :: "api_entry \<Rightarrow> bool" where
  "provided e = (Some e \<in> set (map entry_of stub_surface))"

section \<open>Properties\<close>

subsection \<open>Every body is \<open>return 0;\<close>\<close>

lemmas stub_defs =
  NvEncOpenEncodeSession_def NvEncGetEncodeGUIDCount_def NvEncGetEncodeGUIDs_def
  NvEncGetEncodeProfileGUIDCount_def NvEncGetEncodeProfileGUIDs_def NvEncGetInputFormatCount_def
  NvEncGetInputFormats_def NvEncGetEncodeCaps_def NvEncGetEncodePresetCount_def
  NvEncGetEncodePresetGUIDs_def NvEncGetEncodePresetConfig_def NvEncGetEncodePresetConfigEx_def
  NvEncInitializeEncoder_def NvEncCreateInputBuffer_def NvEncDestroyInputBuffer_def
  NvEncSetIOCudaStreams_def NvEncCreateBitstreamBuffer_def NvEncDestroyBitstreamBuffer_def
  NvEncEncodePicture_def NvEncLockBitstream_def NvEncUnlockBitstream_def
  NvEncRestoreEncoderState_def NvEncLockInputBuffer_def NvEncUnlockInputBuffer_def
  NvEncGetEncodeStats_def NvEncGetSequenceParams_def NvEncGetSequenceParamEx_def
  NvEncRegisterAsyncEvent_def NvEncUnregisterAsyncEvent_def NvEncMapInputResource_def
  NvEncUnmapInputResource_def NvEncDestroyEncoder_def NvEncInvalidateRefFrames_def
  NvEncOpenEncodeSessionEx_def NvEncRegisterResource_def NvEncUnregisterResource_def
  NvEncReconfigureEncoder_def NvEncCreateMVBuffer_def NvEncDestroyMVBuffer_def
  NvEncRunMotionEstimationOnly_def NvEncodeAPIGetMaxSupportedVersion_def NvEncLookaheadPicture_def
  NvEncodeAPICreateInstance_def

lemma exec_returns: "exec c h = Inr (0, h)"
  by (cases c) (simp_all add: creturn_def stub_defs)

lemma status_of_exec: "status_of (exec c h) = Some 0"
  by (simp add: exec_returns status_of_def)

lemma mem_of_exec: "mem_of (exec c h) = Some h"
  by (simp add: exec_returns mem_of_def)

lemma fn_of_null_call: "fn_of (null_call f) = f"
  by (cases f) simp_all

lemma run_trace: "run cs h = map (\<lambda>c. Inr (0, h)) cs"
  by (induction cs) (simp_all add: exec_returns)

subsection \<open>The table lists the whole source, once\<close>

lemma stub_surface_all: "f \<in> set stub_surface"
  by (cases f) (simp_all add: stub_surface_def)

lemma stub_surface_length: "length stub_surface = 43"
  by (simp add: stub_surface_def)

lemma stub_surface_distinct: "distinct stub_surface"
  by (simp add: stub_surface_def)

subsection \<open>Uniform success\<close>

text \<open>
  C1. For every function of the stub surface and every input, the call returns status 0:
  every call \<open>c\<close> on every memory \<open>h\<close> returns 0, and so does the call of every function
  \<open>f\<close> with null or zero arguments on a memory where nothing is mapped. A call has one
  outcome, so no call returns a non-zero status.
\<close>

theorem stub_returns_success:
  "status_of (exec c h) = Some 0 \<and> status_of (exec (null_call f) Map.empty) = Some 0"
  by (simp add: status_of_exec)

subsection \<open>No output parameter is written\<close>

text \<open>
  C2. For every function and every input, the call returns and the memory after the call
  is the memory before it, so the pointee of every pointer argument (the object of any
  size \<open>n\<close> at any address \<open>p\<close>) is what the caller put there.
\<close>

theorem stub_writes_nothing:
  "\<exists>h'. mem_of (exec c h) = Some h' \<and> h' = h \<and> (\<forall>p n. object h' p n = object h p n)"
  by (simp add: mem_of_exec)

subsection \<open>Totality; arguments are never read\<close>

text \<open>
  C3. Every call returns, for every argument valuation and every memory, and never faults.
  Its outcome is that of the same function called with null and zero arguments, so no
  argument is read or validated; its status is the one it returns when no address is
  mapped at all, where any dereference would fault, so no argument is dereferenced. The
  status returned is success.
\<close>

theorem stub_total_args_unread:
  "(\<exists>s h'. exec c h = Inr (s, h')) \<and> (\<forall>e. exec c h \<noteq> Inl e)
   \<and> fn_of (null_call (fn_of c)) = fn_of c
   \<and> exec c h = exec (null_call (fn_of c)) h
   \<and> status_of (exec c h) = status_of (exec c Map.empty)
   \<and> status_of (exec c h) = Some 0"
  by (simp add: exec_returns status_of_def fn_of_null_call)

subsection \<open>Statelessness\<close>

text \<open>
  C4. In every sequence of calls, in any order and with any repetition, the outcome of each
  call (status and memory) is the outcome of that call made alone on the initial memory.
  Hence a sequence splits anywhere into independent parts, reversing the order reverses
  the outcomes, and a repeated call gives the same outcome both times.
\<close>

theorem calls_stateless:
  "run cs h = map (\<lambda>c. exec c h) cs
   \<and> run cs h = concat (map (\<lambda>c. run [c] h) cs)
   \<and> run (cs @ ds) h = run cs h @ run ds h
   \<and> run (rev cs) h = rev (run cs h)
   \<and> run [c, c] h = [exec c h, exec c h]"
proof -
  have one: "run [d] h = [Inr (0, h)]" for d
    by (simp add: exec_returns)
  have "concat (map (\<lambda>c. run [c] h) cs) = map (\<lambda>c. Inr (0, h)) cs"
    unfolding one by (induction cs) simp_all
  then show ?thesis
    by (simp add: run_trace exec_returns rev_map)
qed

subsection \<open>The enumerated API list\<close>

text \<open>
  C5, as stated, fails: the enumeration names encoder-state save beside restore, and the
  source defines \<open>NvEncRestoreEncoderState\<close> only. No function of the file realises
  encoder-state save.
\<close>

theorem save_state_not_provided:
  "EncoderStateSave \<in> set spec_api_list \<and> \<not> provided EncoderStateSave"
  by (simp add: spec_api_list_def provided_def stub_surface_def)

text \<open>
  C5, amended. Encoder-state save is the one entry of the enumeration that no function
  realises: every other entry (encoder-state restore among them) is provided by a function
  of the source, and every call of every function returns success.
\<close>

theorem api_list_provided_except_save:
  "filter (\<lambda>e. \<not> provided e) spec_api_list = [EncoderStateSave]
   \<and> provided EncoderStateRestore
   \<and> status_of (exec c h) = Some 0"
  by (simp add: spec_api_list_def provided_def stub_surface_def status_of_exec)

subsection \<open>The examples of the specification\<close>

text \<open>
  C6. \<open>NvEncGetEncodeGUIDCount\<close> called with a null encoder handle and a non-null count
  pointer, at which the caller stored the four bytes \<open>bs\<close> of a \<open>uint32_t\<close>, returns
  success, and the four bytes at the pointer are still \<open>bs\<close> after the call.
\<close>

theorem guid_count_null_encoder:
  assumes "encodeGUIDCount \<noteq> 0"
    and "object h encodeGUIDCount 4 = map Some bs"
  shows "\<exists>h'. NvEncGetEncodeGUIDCount 0 encodeGUIDCount h = Inr (0, h')
          \<and> object h' encodeGUIDCount 4 = map Some bs"
  using assms by (simp add: NvEncGetEncodeGUIDCount_def creturn_def)

text \<open>The count 7 stored at address \<open>0x1000\<close> is still there after the call.\<close>

theorem guid_count_null_encoder_witness:
  "(0x1000 :: addr) \<noteq> 0
   \<and> object [0x1000 \<mapsto> 7, 0x1001 \<mapsto> 0, 0x1002 \<mapsto> 0, 0x1003 \<mapsto> 0] 0x1000 4
       = map Some [7, 0, 0, 0]
   \<and> (\<exists>h'. NvEncGetEncodeGUIDCount 0 0x1000
               [0x1000 \<mapsto> 7, 0x1001 \<mapsto> 0, 0x1002 \<mapsto> 0, 0x1003 \<mapsto> 0] = Inr (0, h')
          \<and> object h' 0x1000 4 = map Some [7, 0, 0, 0])"
proof -
  let ?h = "[0x1000 \<mapsto> 7, 0x1001 \<mapsto> 0, 0x1002 \<mapsto> 0, 0x1003 \<mapsto> (0::byte)] :: mem"
  have nz: "(0x1000 :: addr) \<noteq> 0"
    by simp
  have ob: "object ?h 0x1000 4 = map Some [7, 0, 0, 0]"
    by (simp add: object_def upt_rec)
  from guid_count_null_encoder [OF nz ob] nz ob show ?thesis
    by blast
qed

text \<open>
  C7. \<open>NvEncDestroyEncoder\<close> returns success for any handle value and any memory, also
  when no address is mapped at all (the handle then points at nothing, and an access to it
  would fault), and also after any sequence \<open>cs\<close> of earlier calls to the stubs, none of
  which produced the handle.
\<close>

theorem destroy_unknown_handle:
  "NvEncDestroyEncoder encoder h = Inr (0, h)
   \<and> NvEncDestroyEncoder encoder Map.empty = Inr (0, Map.empty)
   \<and> run (cs @ [NvEncDestroyEncoder_call encoder]) h = run cs h @ [Inr (0, h)]"
  by (simp add: NvEncDestroyEncoder_def creturn_def run_trace)

text \<open>
  C8. \<open>NvEncodeAPICreateInstance\<close> returns success for every function-list pointer, the
  null pointer included, and the structure at the pointer, whatever its size \<open>n\<close>, is
  after the call what it was before: no field is populated.
\<close>

theorem create_instance_leaves_list:
  "status_of (NvEncodeAPICreateInstance functionList h) = Some 0
   \<and> status_of (NvEncodeAPICreateInstance 0 h) = Some 0
   \<and> (\<exists>h'. mem_of (NvEncodeAPICreateInstance functionList h) = Some h'
          \<and> (\<forall>n. object h' functionList n = object h functionList n))"
  by (simp add: NvEncodeAPICreateInstance_def creturn_def status_of_def mem_of_def)

subsection \<open>A function outside the enumeration\<close>

text \<open>
  C10. The source defines \<open>NvEncSetIOCudaStreams\<close>; it realises no entry of the
  specification's enumeration, and it is the only function of the source that does not.
  It returns success for all inputs, and the objects at its two stream arguments are
  after the call what they were before.
\<close>

theorem set_io_cuda_streams_extra:
  "NvEncSetIOCudaStreams_fn \<in> set stub_surface
   \<and> entry_of NvEncSetIOCudaStreams_fn = None
   \<and> filter (\<lambda>f. entry_of f = None) stub_surface = [NvEncSetIOCudaStreams_fn]
   \<and> NvEncSetIOCudaStreams encoder inputStream outputStream h = Inr (0, h)
   \<and> (\<exists>h'. mem_of (NvEncSetIOCudaStreams encoder inputStream outputStream h) = Some h'
          \<and> (\<forall>n. object h' inputStream n = object h inputStream n)
          \<and> (\<forall>n. object h' outputStream n = object h outputStream n))"
  by (simp add: stub_surface_def NvEncSetIOCudaStreams_def creturn_def mem_of_def)

end
